theory Spec2Isabelle
  imports Complex_Main
begin

section \<open>Numbers\<close>

text \<open>
  The program computes with JavaScript numbers. They are modelled by exact rationals:
  prices, quantities, stock levels and thresholds are \<open>rat\<close>, results of
  \<open>Math.round\<close> are \<open>int\<close>. Dates have date-only granularity in the data model
  (\<open>new Date("2023-06-15")\<close>) and are modelled by their day number (days since the epoch,
  an \<open>int\<close>); an instant such as \<open>new Date()\<close> is a rational number of days.
\<close>

definition Math_round :: "rat \<Rightarrow> int" where
  \<comment> \<open>\<open>Math.round(x)\<close>: the nearest integer, a tie going towards plus infinity.\<close>
  "Math_round x = \<lfloor>x + 1 / 2\<rfloor>"

definition round2 :: "rat \<Rightarrow> rat" where
  \<comment> \<open>The idiom \<open>Math.round(x * 100) / 100\<close>.\<close>
  "round2 x = of_int (Math_round (x * 100)) / 100"

definition round1 :: "rat \<Rightarrow> rat" where
  \<comment> \<open>The idiom \<open>Math.round(x * 10) / 10\<close>.\<close>
  "round1 x = of_int (Math_round (x * 10)) / 10"

definition mongo_round2 :: "rat \<Rightarrow> rat" where
  \<comment> \<open>The aggregation operator \<open>{ $round: [x, 2] }\<close>: two decimal places, a tie going
      to the even digit.\<close>
  "mongo_round2 x =
     (let y = x * 100; f = \<lfloor>y\<rfloor>; d = y - of_int f
      in of_int (if d < 1 / 2 then f
                 else if 1 / 2 < d then f + 1
                 else if even f then f else f + 1) / 100)"

section \<open>Data model\<close>

datatype product_name = Burgers | ChickenSandwiches | Fries | Beverages | SidesAndOther

datatype channel = InStore | DriveThru | Online

datatype payment = CreditCard | Cash | GiftCard

record sale =
  orderId :: int
  date :: int
  product :: product_name
  price :: rat
  quantity :: rat
  purchaseType :: channel
  paymentMethod :: payment

record inventory_policy =
  minStockDaily :: rat
  reorderPoint :: rat
  maxStockDaily :: rat

record product_config =
  name :: product_name
  sellPrice :: rat
  costPrice :: rat
  marginPercent :: rat
  category :: string
  inventory :: inventory_policy

datatype stock_status = Green | Yellow | Red

record snapshot =
  inv_product :: product_name
  inv_date :: int
  stockLevel :: rat
  consumed :: rat
  restocked :: rat
  status :: stock_status

section \<open>seed.js: the inventory simulation\<close>

text \<open>
  \<open>salesByDay\<close> is the aggregation of \<open>seedInventory\<close>: one group for every
  (product, day) that has a sale, with the summed quantity, sorted by day ascending.
\<close>

definition salesByDay :: "sale list \<Rightarrow> ((product_name \<times> int) \<times> rat) list" where
  "salesByDay sales =
     sort_key (\<lambda>g. snd (fst g))
       (map (\<lambda>k. (k, sum_list (map quantity
                        (filter (\<lambda>s. (product s, date s) = k) sales))))
            (remdups (map (\<lambda>s. (product s, date s)) sales)))"

definition productDays :: "sale list \<Rightarrow> (product_name \<times> (int \<times> rat) list) list" where
  \<comment> \<open>The object \<open>productDays\<close> as its entries: each product with its days in the
      order of \<open>salesByDay\<close>.\<close>
  "productDays sales =
     (let groups = salesByDay sales
      in map (\<lambda>p. (p, map (\<lambda>g. (snd (fst g), snd g))
                         (filter (\<lambda>g. fst (fst g) = p) groups)))
             (remdups (map (\<lambda>g. fst (fst g)) groups)))"

fun simulate :: "inventory_policy \<Rightarrow> product_name \<Rightarrow> rat \<Rightarrow> (int \<times> rat) list \<Rightarrow> snapshot list" where
  "simulate pol p stock [] = []"
| "simulate pol p stock ((d, c) # days) =
     (let stock1 = stock - c;
          restock = (if stock1 < reorderPoint pol then maxStockDaily pol - stock1 else 0);
          stock2 = (if stock1 < reorderPoint pol then maxStockDaily pol else stock1);
          st = (if stock2 < minStockDaily pol then Red
                else if stock2 < reorderPoint pol then Yellow else Green)
      in \<lparr> inv_product = p, inv_date = d, stockLevel = round2 stock2,
           consumed = round2 c, restocked = round2 restock, status = st \<rparr>
         # simulate pol p stock2 days)"

definition seedInventory :: "(product_name \<Rightarrow> product_config option) \<Rightarrow> sale list \<Rightarrow> snapshot list" where
  \<comment> \<open>The documents inserted into the Inventory collection. A product that has sales but
      no configuration is skipped.\<close>
  "seedInventory config sales =
     concat (map (\<lambda>(p, days).
                    case config p of
                      None \<Rightarrow> []
                    | Some pc \<Rightarrow> simulate (inventory pc) p (maxStockDaily (inventory pc)) days)
                 (productDays sales))"

definition policy_ok :: "inventory_policy \<Rightarrow> bool" where
  \<comment> \<open>The invariant of the data model: \<open>0 \<le> minStock < reorderPoint < maxStock\<close>.\<close>
  "policy_ok pol \<longleftrightarrow>
     0 \<le> minStockDaily pol \<and> minStockDaily pol < reorderPoint pol
     \<and> reorderPoint pol < maxStockDaily pol"

section \<open>inventory.js: the online inventory check\<close>

text \<open>
  The collections are passed in as lists (\<open>sales\<close>, \<open>inventoryDocs\<close>, \<open>products\<close>)
  and the clock as \<open>now\<close>. \<open>startDate.setDate(startDate.getDate() - lookbackDays)\<close>
  is \<open>now - lookbackDays\<close> in days.
\<close>

definition getAvgDailyConsumption :: "sale list \<Rightarrow> rat \<Rightarrow> product_name \<Rightarrow> rat \<Rightarrow> int" where
  "getAvgDailyConsumption sales now productName lookbackDays =
     (let startDate = now - lookbackDays;
          matched = filter (\<lambda>s. product s = productName \<and> startDate \<le> of_int (date s)) sales;
          result = (if matched = [] then []
                    else [(sum_list (map quantity matched), remdups (map date matched))])
      in case result of
           [] \<Rightarrow> 0
         | (totalQty, dayCount) # _ \<Rightarrow>
             if dayCount = [] then 0
             else Math_round (totalQty / of_nat (length dayCount)))"

definition getLatestInventory :: "snapshot list \<Rightarrow> product_name option \<Rightarrow> snapshot list" where
  \<comment> \<open>The most recent snapshot of each product (\<open>$sort\<close> by date descending, then
      \<open>$first\<close> of each group).\<close>
  "getLatestInventory inventoryDocs productFilter =
     (let matched = filter (\<lambda>i. case productFilter of None \<Rightarrow> True
                                  | Some p \<Rightarrow> inv_product i = p) inventoryDocs;
          sorted = rev (sort_key inv_date matched)
      in List.map_filter (\<lambda>p. find (\<lambda>i. inv_product i = p) sorted)
           (remdups (map inv_product sorted)))"

record product_result =
  res_product :: product_name
  stock_level :: rat
  res_status :: stock_status
  avg_daily_consumption :: int
  days_until_stockout :: int
  min_stock :: rat
  reorder_point :: rat
  max_stock :: rat
  restock_recommendation :: rat
  last_updated :: "int option"

definition productResult :: "sale list \<Rightarrow> rat \<Rightarrow> snapshot list \<Rightarrow> product_config \<Rightarrow> product_result" where
  \<comment> \<open>The callback of \<open>productDocs.map\<close> in \<open>handleCheckInventory\<close>.\<close>
  "productResult sales now latestInventory prd =
     (let inv = find (\<lambda>i. inv_product i = name prd) latestInventory;
          stock = (case inv of Some i \<Rightarrow> stockLevel i | None \<Rightarrow> 0);
          lastDate = map_option inv_date inv;
          avgDaily = getAvgDailyConsumption sales now (name prd) 30;
          daysUntilStockout =
            (if 0 < avgDaily then Math_round (stock / of_int avgDaily) else 999);
          thresholds = inventory prd;
          st = (if stock < minStockDaily thresholds then Red
                else if stock < reorderPoint thresholds then Yellow else Green);
          maxStock = (if maxStockDaily thresholds = 0 then stock * 2
                      else maxStockDaily thresholds);
          restockQty = max 0 (maxStock - stock)
      in \<lparr> res_product = name prd, stock_level = stock, res_status = st,
           avg_daily_consumption = avgDaily,
           days_until_stockout = min daysUntilStockout 999,
           min_stock = minStockDaily thresholds, reorder_point = reorderPoint thresholds,
           max_stock = maxStock, restock_recommendation = restockQty,
           last_updated = lastDate \<rparr>)"

record 'p mcp_result =
  content :: 'p
  isError :: bool

datatype inventory_payload =
    ProductNotFound "product_name list"
  | InventoryReport "product_result list"

definition handleCheckInventory ::
  "product_config list \<Rightarrow> snapshot list \<Rightarrow> sale list \<Rightarrow> rat \<Rightarrow> product_name option
     \<Rightarrow> inventory_payload mcp_result" where
  \<comment> \<open>\<open>product\<close> is \<open>None\<close> for "all" or an omitted argument. The summary block is
      computed from the product results and is left out.\<close>
  "handleCheckInventory products inventoryDocs sales now product' =
     (let productDocs = (case product' of Some p \<Rightarrow> filter (\<lambda>d. name d = p) products
                                        | None \<Rightarrow> products)
      in if productDocs = []
         then \<lparr> content = ProductNotFound
                  [Burgers, ChickenSandwiches, Fries, Beverages, SidesAndOther],
                isError = True \<rparr>
         else \<lparr> content = InventoryReport
                  (map (productResult sales now (getLatestInventory inventoryDocs product'))
                       productDocs),
                isError = False \<rparr>)"

section \<open>Sales analytics\<close>

definition buildDateFilter :: "rat \<Rightarrow> rat \<Rightarrow> sale \<Rightarrow> bool" where
  "buildDateFilter now days =
     (if days \<le> 0 then (\<lambda>s. True) else (\<lambda>s. now - days \<le> of_int (date s)))"

definition lineRevenue :: "sale \<Rightarrow> rat" where
  \<comment> \<open>\<open>{ $multiply: ["$price", "$quantity"] }\<close>\<close>
  "lineRevenue s = price s * quantity s"

record overview =
  total_revenue :: rat
  total_quantity :: rat
  total_orders :: nat
  avg_order_value :: rat
  ov_avg_price :: "rat option"
  product_count :: "nat option"
  channel_count :: "nat option"

definition getOverview :: "(sale \<Rightarrow> bool) \<Rightarrow> sale list \<Rightarrow> overview" where
  "getOverview dateFilter sales =
     (let matched = filter dateFilter sales
      in if matched = []
         then \<lparr> total_revenue = 0, total_quantity = 0, total_orders = 0,
                avg_order_value = 0, ov_avg_price = None, product_count = None,
                channel_count = None \<rparr>
         else
           (let totalRevenue = sum_list (map lineRevenue matched);
                totalOrders = length matched
            in \<lparr> total_revenue = mongo_round2 totalRevenue,
                 total_quantity = sum_list (map quantity matched),
                 total_orders = totalOrders,
                 avg_order_value = mongo_round2 (totalRevenue / of_nat totalOrders),
                 ov_avg_price =
                   Some (mongo_round2 (sum_list (map price matched) / of_nat totalOrders)),
                 product_count = Some (length (remdups (map product matched))),
                 channel_count = Some (length (remdups (map purchaseType matched))) \<rparr>))"

record product_group =
  row_product :: product_name
  revenue :: rat
  row_quantity :: rat
  orders :: nat
  avg_price :: rat

record product_row = product_group +
  revenue_pct :: rat

definition byProductGroups :: "(sale \<Rightarrow> bool) \<Rightarrow> sale list \<Rightarrow> product_group list" where
  \<comment> \<open>The pipeline of \<open>getByProduct\<close>: \<open>$match\<close>, \<open>$group\<close> by product, \<open>$sort\<close>
      by revenue descending, \<open>$project\<close> with the revenue rounded.\<close>
  "byProductGroups dateFilter sales =
     (let matched = filter dateFilter sales;
          groups = map (\<lambda>p. let g = filter (\<lambda>s. product s = p) matched
                             in \<lparr> row_product = p,
                                  revenue = sum_list (map lineRevenue g),
                                  row_quantity = sum_list (map quantity g),
                                  orders = length g,
                                  avg_price = sum_list (map price g) / of_nat (length g) \<rparr>)
                       (remdups (map product matched));
          sorted = sort_key (\<lambda>r. - revenue r) groups
      in map (\<lambda>r. r \<lparr> revenue := mongo_round2 (revenue r),
                       avg_price := mongo_round2 (avg_price r) \<rparr>) sorted)"

definition getByProduct :: "(sale \<Rightarrow> bool) \<Rightarrow> sale list \<Rightarrow> product_row list" where
  "getByProduct dateFilter sales =
     (let results = byProductGroups dateFilter sales;
          totalRevenue = foldl (\<lambda>sum r. sum + revenue r) 0 results
      in map (\<lambda>r. product_group.extend r
                     \<lparr> revenue_pct = (if 0 < totalRevenue
                                       then round1 (revenue r / totalRevenue * 100)
                                       else 0) \<rparr>) results)"

datatype analysis_mode = Overview | ByProduct | ByChannel | Trend | TopSellers

definition analysisMap :: "(string \<times> analysis_mode) list" where
  \<comment> \<open>The own properties of the object literal \<open>analysisMap\<close>, in order.\<close>
  "analysisMap =
     [(''overview'', Overview), (''by_product'', ByProduct), (''by_channel'', ByChannel),
      (''trend'', Trend), (''top_sellers'', TopSellers)]"

definition Object_prototype_keys :: "string list" where
  \<comment> \<open>The properties every object literal inherits from \<open>Object.prototype\<close>.\<close>
  "Object_prototype_keys =
     [''constructor'', ''__defineGetter__'', ''__defineSetter__'', ''hasOwnProperty'',
      ''__lookupGetter__'', ''__lookupSetter__'', ''isPrototypeOf'',
      ''propertyIsEnumerable'', ''toString'', ''valueOf'', ''__proto__'',
      ''toLocaleString'']"

datatype js_property = Own analysis_mode | Inherited string | Undefined

definition analysisMap_get :: "string \<Rightarrow> js_property" where
  \<comment> \<open>\<open>analysisMap[analysis_type]\<close>: an own property, else one found on the prototype,
      else \<open>undefined\<close>.\<close>
  "analysisMap_get key =
     (case map_of analysisMap key of
        Some m \<Rightarrow> Own m
      | None \<Rightarrow> if key \<in> set Object_prototype_keys then Inherited key else Undefined)"

datatype 'd js_data = Analysis 'd | EmptyObject | JsString string | JsBool bool

definition call_inherited :: "string \<Rightarrow> string + 'd js_data" where
  \<comment> \<open>\<open>analysisFn()\<close> for an inherited property, called without a receiver in a module
      (strict mode): \<open>Object()\<close> gives a new empty object, \<open>toString\<close> gives
      \<open>[object Undefined]\<close>, \<open>isPrototypeOf\<close> gives \<open>false\<close>; the others throw a
      TypeError, and \<open>__proto__\<close> is not a function.\<close>
  "call_inherited key =
     (if key = ''constructor'' then Inr EmptyObject
      else if key = ''toString'' then Inr (JsString ''[object Undefined]'')
      else if key = ''isPrototypeOf'' then Inr (JsBool False)
      else Inl ''TypeError'')"

datatype 'd analytics_payload =
    UnknownType string "string list"
  | CaughtError string
  | AnalysisResponse string "'d js_data"
  | InvalidArguments string "string list"

definition handleGetSalesAnalytics ::
  "(analysis_mode \<Rightarrow> string + 'd) \<Rightarrow> string \<Rightarrow> 'd analytics_payload mcp_result" where
  \<comment> \<open>\<open>run m\<close> is the outcome of the analysis function of mode \<open>m\<close> on the date
      filter: its data, or the message of the error it throws. \<open>UnknownType\<close> carries
      \<open>error\<close> and \<open>available_types\<close>, \<open>CaughtError\<close> the message of the \<open>catch\<close>
      branch, \<open>AnalysisResponse\<close> the fields \<open>analysis_type\<close> and \<open>data\<close>.\<close>
  "handleGetSalesAnalytics run analysis_type =
     (case analysisMap_get analysis_type of
        Undefined \<Rightarrow>
          \<lparr> content = UnknownType analysis_type (map fst analysisMap), isError = True \<rparr>
      | Own m \<Rightarrow>
          (case run m of
             Inl msg \<Rightarrow> \<lparr> content = CaughtError msg, isError = True \<rparr>
           | Inr d \<Rightarrow> \<lparr> content = AnalysisResponse analysis_type (Analysis d),
                         isError = False \<rparr>)
      | Inherited k \<Rightarrow>
          (case call_inherited k of
             Inl msg \<Rightarrow> \<lparr> content = CaughtError msg, isError = True \<rparr>
           | Inr v \<Rightarrow> \<lparr> content = AnalysisResponse analysis_type v, isError = False \<rparr>))"





section \<open>profit.js: the per-product breakdown\<close>

record cost_info =
  cost_costPrice :: rat
  cost_sellPrice :: rat
  cost_marginPercent :: rat
  cost_category :: string

definition getCostMap :: "product_config list \<Rightarrow> (product_name \<rightharpoonup> cost_info)" where
  "getCostMap products =
     foldl (\<lambda>m p. m(name p \<mapsto> \<lparr> cost_costPrice = costPrice p, cost_sellPrice = sellPrice p,
                                 cost_marginPercent = marginPercent p,
                                 cost_category = category p \<rparr>))
           Map.empty products"

record product_sales =
  agg_id :: product_name
  agg_revenue :: rat
  totalQuantity :: rat
  orderCount :: nat
  avgPrice :: rat

definition salesByProduct :: "(sale \<Rightarrow> bool) \<Rightarrow> sale list \<Rightarrow> product_sales list" where
  \<comment> \<open>The aggregation of \<open>getProductProfitBreakdown\<close>: \<open>$match\<close>, \<open>$group\<close> by product,
      \<open>$sort\<close> by revenue descending.\<close>
  "salesByProduct dateFilter sales =
     (let matched = filter dateFilter sales
      in sort_key (\<lambda>g. - agg_revenue g)
           (map (\<lambda>p. let g = filter (\<lambda>s. product s = p) matched
                      in \<lparr> agg_id = p,
                           agg_revenue = sum_list (map lineRevenue g),
                           totalQuantity = sum_list (map quantity g),
                           orderCount = length g,
                           avgPrice = sum_list (map price g) / of_nat (length g) \<rparr>)
                (remdups (map product matched))))"

record profit_row =
  pr_product :: product_name
  pr_category :: string
  pr_revenue :: rat
  cost_of_goods :: rat
  gross_profit :: rat
  margin_percent :: rat
  units_sold :: rat
  pr_orders :: nat
  avg_selling_price :: rat
  cost_per_unit :: rat
  profit_per_unit :: rat

definition profitRow :: "(product_name \<rightharpoonup> cost_info) \<Rightarrow> product_sales \<Rightarrow> profit_row" where
  \<comment> \<open>The callback of \<open>salesByProduct.map\<close>; a product without an entry in the cost map
      has cost price 0 and category "unknown".\<close>
  "profitRow costMap item =
     (let cost = costMap (agg_id item);
          cost_price = (case cost of Some c \<Rightarrow> cost_costPrice c | None \<Rightarrow> 0);
          cogs = cost_price * totalQuantity item;
          grossProfit = agg_revenue item - cogs;
          marginPct = (if 0 < agg_revenue item then grossProfit / agg_revenue item * 100
                       else 0)
      in \<lparr> pr_product = agg_id item,
           pr_category = (case cost of
                            Some c \<Rightarrow> if cost_category c = [] then ''unknown''
                                      else cost_category c
                          | None \<Rightarrow> ''unknown''),
           pr_revenue = round2 (agg_revenue item),
           cost_of_goods = round2 cogs,
           gross_profit = round2 grossProfit,
           margin_percent = round1 marginPct,
           units_sold = totalQuantity item,
           pr_orders = orderCount item,
           avg_selling_price = round2 (avgPrice item),
           cost_per_unit = cost_price,
           profit_per_unit = round2 (avgPrice item - cost_price) \<rparr>)"

definition getProductProfitBreakdown ::
  "(sale \<Rightarrow> bool) \<Rightarrow> (product_name \<rightharpoonup> cost_info) \<Rightarrow> sale list \<Rightarrow> profit_row list" where
  "getProductProfitBreakdown dateFilter costMap sales =
     map (profitRow costMap) (salesByProduct dateFilter sales)"

section \<open>forecast.js: the primary path and the moving-average fallback\<close>

definition dayOfWeek :: "int \<Rightarrow> int" where
  \<comment> \<open>0 is Sunday; day 0 (1970-01-01) was a Thursday.\<close>
  "dayOfWeek d = (d + 4) mod 7"

record daily_total =
  d_date :: int
  d_dayOfWeek :: int
  dailyQty :: rat
  dailyRevenue :: rat

definition dailyData :: "sale list \<Rightarrow> rat \<Rightarrow> product_name option \<Rightarrow> daily_total list" where
  \<comment> \<open>The aggregation of \<open>movingAverageFallback\<close> over the last 30 days; \<open>product\<close> is
      \<open>None\<close> for "all".\<close>
  "dailyData sales now product' =
     (let startDate = now - 30;
          matched = filter (\<lambda>s. startDate \<le> of_int (date s)
                                \<and> (case product' of None \<Rightarrow> True | Some p \<Rightarrow> product s = p))
                           sales
      in sort_key d_date
           (map (\<lambda>d. let g = filter (\<lambda>s. date s = d) matched
                      in \<lparr> d_date = d, d_dayOfWeek = dayOfWeek d,
                           dailyQty = sum_list (map quantity g),
                           dailyRevenue = sum_list (map lineRevenue g) \<rparr>)
                (remdups (map date matched))))"

definition dowMultipliers :: "daily_total list \<Rightarrow> rat \<Rightarrow> int \<Rightarrow> rat option" where
  \<comment> \<open>The object \<open>dowMultipliers\<close>: an entry for every weekday that has a bucket.\<close>
  "dowMultipliers data avgDaily w =
     (let quantities = map dailyQty (filter (\<lambda>d. d_dayOfWeek d = w) data)
      in if quantities = [] then None
         else Some (let dayAvg = sum_list quantities / of_nat (length quantities)
                    in if 0 < avgDaily then round2 (dayAvg / avgDaily) else 1))"

definition dayNames :: "string list" where
  "dayNames = [''Sunday'', ''Monday'', ''Tuesday'', ''Wednesday'', ''Thursday'', ''Friday'',
               ''Saturday'']"

record prediction =
  pred_date :: int
  day_name :: string
  predicted_quantity :: int
  predicted_revenue :: rat
  confidence :: string

definition predict ::
  "daily_total list \<Rightarrow> rat \<Rightarrow> rat \<Rightarrow> rat \<Rightarrow> (int \<Rightarrow> rat) \<Rightarrow> int \<Rightarrow> prediction" where
  \<comment> \<open>The body of the prediction loop for day \<open>i\<close>; \<open>random i\<close> is the value that
      \<open>Math.random()\<close> returns in that iteration.\<close>
  "predict data avgDaily avgRevenue now random i =
     (let d = \<lfloor>now\<rfloor> + i;
          w = dayOfWeek d;
          dowMult = (case dowMultipliers data avgDaily w of
                       None \<Rightarrow> 1
                     | Some m \<Rightarrow> if m = 0 then 1 else m);
          variance = 9 / 10 + random i * (2 / 10)
      in \<lparr> pred_date = d, day_name = dayNames ! nat w,
           predicted_quantity = max 0 (Math_round (avgDaily * dowMult * variance)),
           predicted_revenue = max 0 (round2 (avgRevenue * dowMult * variance)),
           confidence = ''low'' \<rparr>)"

record forecast_summary =
  total_predicted_quantity :: int
  avg_daily_predicted :: int
  peak_day :: "int \<times> string \<times> int"

record forecast =
  forecast_days :: int
  model :: string
  fc_confidence :: string
  ml_service :: string
  summary :: forecast_summary
  daily_forecast :: "prediction list"

datatype fallback_result = NoHistory | Forecast forecast

definition movingAverageFallback ::
  "sale list \<Rightarrow> rat \<Rightarrow> (int \<Rightarrow> rat) \<Rightarrow> product_name option \<Rightarrow> int \<Rightarrow> string + fallback_result" where
  \<comment> \<open>\<open>Inl\<close> is a thrown error: with no prediction, \<open>peak\<close> is \<open>undefined\<close> and
      \<open>peak.date\<close> throws. \<open>NoHistory\<close> is the object with \<open>error\<close> and \<open>suggestion\<close>.\<close>
  "movingAverageFallback sales now random product' daysAhead =
     (let data = dailyData sales now product'
      in if data = [] then Inr NoHistory
         else
           (let totalQty = foldl (\<lambda>sum d. sum + dailyQty d) 0 data;
                totalRevenue = foldl (\<lambda>sum d. sum + dailyRevenue d) 0 data;
                avgDaily = totalQty / of_nat (length data);
                avgRevenue = totalRevenue / of_nat (length data);
                predictions = map (predict data avgDaily avgRevenue now random) [1..daysAhead];
                totalPredQty = foldl (\<lambda>s p. s + predicted_quantity p) 0 predictions
            in case predictions of
                 [] \<Rightarrow> Inl ''TypeError''
               | p0 # _ \<Rightarrow>
                   (let peak = foldl (\<lambda>mx p. if predicted_quantity mx < predicted_quantity p
                                               then p else mx) p0 predictions
                    in Inr (Forecast
                         \<lparr> forecast_days = daysAhead,
                           model = ''moving_average_fallback'',
                           fc_confidence = ''low'',
                           ml_service = ''disconnected'',
                           summary =
                             \<lparr> total_predicted_quantity = totalPredQty,
                               avg_daily_predicted =
                                 Math_round (of_int totalPredQty / of_int daysAhead),
                               peak_day = (pred_date peak, day_name peak,
                                           predicted_quantity peak) \<rparr>,
                           daily_forecast = predictions \<rparr>))))"

datatype 'j fetch_outcome = Rejected string | Response bool "'j option"

text \<open>
  A \<open>fetch\<close> either rejects (a network error, or \<open>AbortError\<close> when the shared timeout
  fires) or resolves to a response with its \<open>ok\<close> flag and the outcome of \<open>.json()\<close>
  (\<open>None\<close> when parsing fails). \<open>formatMLResponse\<close> is a parameter; \<open>None\<close> is an
  exception thrown inside it, caught by the \<open>try\<close> of \<open>callMLService\<close>.
\<close>

definition callMLService ::
  "('j \<Rightarrow> 'j \<Rightarrow> 'r option) \<Rightarrow> 'j fetch_outcome \<Rightarrow> 'j fetch_outcome \<Rightarrow> 'r option" where
  "callMLService formatMLResponse forecastFetch profitFetch =
     (case forecastFetch of
        Rejected e \<Rightarrow> None
      | Response forecastOk forecastBody \<Rightarrow>
          (case profitFetch of
             Rejected e \<Rightarrow> None
           | Response profitOk profitBody \<Rightarrow>
               if \<not> forecastOk \<or> \<not> profitOk then None
               else (case forecastBody of
                       None \<Rightarrow> None
                     | Some forecastData \<Rightarrow>
                         (case profitBody of
                            None \<Rightarrow> None
                          | Some profitData \<Rightarrow> formatMLResponse forecastData profitData))))"

datatype 'r forecast_payload = MLResult 'r | FallbackResult fallback_result | ForecastError string

definition fallbackResponse :: "string + fallback_result \<Rightarrow> 'r forecast_payload mcp_result" where
  \<comment> \<open>The second attempt of \<open>handleForecastDemand\<close>: the fallback result as the content,
      or the \<open>catch\<close> branch when the fallback throws.\<close>
  "fallbackResponse r =
     (case r of
        Inl msg \<Rightarrow> \<lparr> content = ForecastError msg, isError = True \<rparr>
      | Inr fallbackResult \<Rightarrow> \<lparr> content = FallbackResult fallbackResult, isError = False \<rparr>)"

definition handleForecastDemand ::
  "('j \<Rightarrow> 'j \<Rightarrow> 'r option) \<Rightarrow> 'j fetch_outcome \<Rightarrow> 'j fetch_outcome \<Rightarrow> sale list \<Rightarrow> rat
     \<Rightarrow> (int \<Rightarrow> rat) \<Rightarrow> product_name option \<Rightarrow> int \<Rightarrow> 'r forecast_payload mcp_result" where
  "handleForecastDemand formatMLResponse forecastFetch profitFetch sales now random
       product' days_ahead =
     (case callMLService formatMLResponse forecastFetch profitFetch of
        Some mlResult \<Rightarrow> \<lparr> content = MLResult mlResult, isError = False \<rparr>
      | None \<Rightarrow>
          fallbackResponse (movingAverageFallback sales now random product' days_ahead))"

definition fetch_failed :: "'j fetch_outcome \<Rightarrow> bool" where
  \<comment> \<open>The call threw, timed out, or returned a non-success status.\<close>
  "fetch_failed r = (case r of Rejected e \<Rightarrow> True | Response ok' body \<Rightarrow> \<not> ok')"

section \<open>festivals.js: the festival cache\<close>

definition toLowerCase :: "string \<Rightarrow> string" where
  \<comment> \<open>On ASCII letters.\<close>
  "toLowerCase s =
     map (\<lambda>c. if (65::nat) \<le> of_char c \<and> of_char c \<le> (90::nat)
               then char_of (of_char c + (32::nat)) else c) s"

fun includes_str :: "string \<Rightarrow> string \<Rightarrow> bool" where
  "includes_str [] keyword = (keyword = [])"
| "includes_str (c # cs) keyword =
     (take (length keyword) (c # cs) = keyword \<or> includes_str cs keyword)"

definition HIGH_IMPACT_HOLIDAYS :: "string list" where
  "HIGH_IMPACT_HOLIDAYS =
     [''thanksgiving'', ''super bowl'', ''christmas'', ''independence day'', ''new year'']"

definition MEDIUM_IMPACT_HOLIDAYS :: "string list" where
  "MEDIUM_IMPACT_HOLIDAYS =
     [''memorial'', ''labor day'', ''mother'', ''father'', ''valentine'', ''halloween'',
      ''black friday'']"

datatype impact_level = HIGH | MEDIUM | LOW

record impact =
  level :: impact_level
  multiplier :: rat

definition classifyImpact :: "string \<Rightarrow> impact" where
  "classifyImpact holidayName =
     (let lower = toLowerCase holidayName
      in if list_ex (\<lambda>keyword. includes_str lower keyword) HIGH_IMPACT_HOLIDAYS
         then \<lparr> level = HIGH, multiplier = 145 / 100 \<rparr>
         else if list_ex (\<lambda>keyword. includes_str lower keyword) MEDIUM_IMPACT_HOLIDAYS
         then \<lparr> level = MEDIUM, multiplier = 125 / 100 \<rparr>
         else \<lparr> level = LOW, multiplier = 110 / 100 \<rparr>)"

record holiday =
  h_date :: int
  h_name :: string
  h_localName :: string

datatype festival_source = NagerApi | Manual

record festival =
  f_name :: string
  f_date :: int
  localName :: "string option"
  countryCode :: string
  source :: festival_source
  demandMultiplier :: rat
  fetchedAt :: rat

fun updateOne ::
  "(festival \<Rightarrow> bool) \<Rightarrow> (festival \<Rightarrow> festival) \<Rightarrow> festival \<Rightarrow> festival list \<Rightarrow> festival list" where
  \<comment> \<open>\<open>updateOne(filter, { $set }, { upsert: true })\<close>: the first matching document is
      updated; with no match, the document built from the filter and the schema defaults is
      inserted with the same fields set.\<close>
  "updateOne flt upd new [] = [upd new]"
| "updateOne flt upd new (f # fs) =
     (if flt f then upd f # fs else f # updateOne flt upd new fs)"

definition upsertHoliday :: "rat \<Rightarrow> string \<Rightarrow> festival list \<Rightarrow> holiday \<Rightarrow> festival list" where
  \<comment> \<open>The body of the loop of \<open>syncFestivalsToCache\<close>.\<close>
  "upsertHoliday now cc cache h =
     (let imp = classifyImpact (h_name h)
      in updateOne (\<lambda>f. f_name f = h_name h \<and> f_date f = h_date h)
           (\<lambda>f. f \<lparr> localName := Some (h_localName h), countryCode := cc,
                     source := NagerApi, demandMultiplier := multiplier imp,
                     fetchedAt := now \<rparr>)
           \<lparr> f_name = h_name h, f_date = h_date h, localName = None, countryCode = ''US'',
             source = NagerApi, demandMultiplier = 1, fetchedAt = now \<rparr>
           cache)"

definition syncFestivalsToCache ::
  "rat \<Rightarrow> string \<Rightarrow> holiday list \<Rightarrow> festival list \<Rightarrow> festival list \<times> nat" where
  \<comment> \<open>\<open>holidays\<close> is what the calendar source returned; the result is the cache after the
      loop and the count \<open>synced\<close>.\<close>
  "syncFestivalsToCache now cc holidays cache =
     (foldl (upsertHoliday now cc) cache holidays, length holidays)"

section \<open>Rounding facts\<close>

lemma Math_round_mono: "x \<le> y \<Longrightarrow> Math_round x \<le> Math_round y"
  unfolding Math_round_def by (intro floor_mono) simp

lemma Math_round_of_int: "Math_round (of_int n) = n"
  unfolding Math_round_def by linarith

lemma round2_mono: "x \<le> y \<Longrightarrow> round2 x \<le> round2 y"
  unfolding round2_def
  by (simp add: Math_round_mono divide_right_mono)

lemma round2_nonneg: "0 \<le> x \<Longrightarrow> 0 \<le> round2 x"
  using round2_mono [of 0 x] by (simp add: round2_def Math_round_def)

lemma round2_cents: "x * 100 \<in> \<int> \<Longrightarrow> round2 x = x"
  unfolding round2_def by (auto simp: Math_round_of_int elim!: Ints_cases)

section \<open>The simulated inventory series\<close>

lemma simulate_snapshots:
  assumes "policy_ok pol" and "d \<in> set (simulate pol p stock days)"
  shows "status d = Green \<and> round2 (reorderPoint pol) \<le> stockLevel d \<and> 0 \<le> stockLevel d"
  using assms(2)
proof (induction days arbitrary: stock)
  case Nil
  then show ?case by simp
next
  case (Cons dc days)
  obtain dt c where dc: "dc = (dt, c)" by (cases dc)
  have a: "0 \<le> round2 (maxStockDaily pol)" "round2 (reorderPoint pol) \<le> round2 (maxStockDaily pol)"
    using assms(1) by (auto simp: policy_ok_def intro!: round2_mono round2_nonneg)
  have b: "0 \<le> round2 (stock - c)" "round2 (reorderPoint pol) \<le> round2 (stock - c)"
    if "\<not> stock - c < reorderPoint pol"
    using assms(1) that by (auto simp: policy_ok_def intro!: round2_mono round2_nonneg)
  show ?case
  proof (cases "stock - c < reorderPoint pol")
    case True
    then show ?thesis
      using Cons.prems Cons.IH [of "maxStockDaily pol"] assms(1) a
      by (auto simp: dc Let_def policy_ok_def)
  next
    case False
    then show ?thesis
      using Cons.prems Cons.IH [of "stock - c"] assms(1) b
      by (auto simp: dc Let_def policy_ok_def)
  qed
qed

lemma simulate_product: "d \<in> set (simulate pol p stock ds) \<Longrightarrow> inv_product d = p"
proof (induction ds arbitrary: stock)
  case Nil
  then show ?case by simp
next
  case (Cons a ds)
  then show ?case by (cases a) (auto simp: Let_def split: if_splits)
qed

lemma seedInventory_snapshot:
  assumes "d \<in> set (seedInventory config sales)"
  shows "\<exists>pc stock days. config (inv_product d) = Some pc
           \<and> d \<in> set (simulate (inventory pc) (inv_product d) stock days)"
proof -
  from assms obtain p days where
    d: "d \<in> set (case config p of None \<Rightarrow> []
                 | Some pc \<Rightarrow> simulate (inventory pc) p (maxStockDaily (inventory pc)) days)"
    by (auto simp: seedInventory_def)
  then obtain pc where pc: "config p = Some pc"
    and mem: "d \<in> set (simulate (inventory pc) p (maxStockDaily (inventory pc)) days)"
    by (cases "config p") auto
  from mem have "inv_product d = p" by (rule simulate_product)
  with pc mem show ?thesis by blast
qed

text \<open>
  Claim C3, as the code has it. Under the invariant \<open>0 \<le> minStock < reorderPoint < maxStock\<close>
  of every configured product, every snapshot of the simulated series has status green
  (yellow and red never occur). Its \<open>stockLevel\<close> is the stock rounded to two decimals, so
  it is at least the reorder point rounded to two decimals, and at least the reorder point
  itself when that is a whole number of hundredths.
\<close>

theorem seedInventory_always_green:
  assumes "\<forall>pc \<in> ran config. policy_ok (inventory pc)"
    and "d \<in> set (seedInventory config sales)"
  shows "status d = Green
         \<and> (\<exists>pc. config (inv_product d) = Some pc
                \<and> round2 (reorderPoint (inventory pc)) \<le> stockLevel d
                \<and> (reorderPoint (inventory pc) * 100 \<in> \<int>
                     \<longrightarrow> reorderPoint (inventory pc) \<le> stockLevel d))"
proof -
  from assms(2) obtain pc stock days where pc: "config (inv_product d) = Some pc"
    and mem: "d \<in> set (simulate (inventory pc) (inv_product d) stock days)"
    using seedInventory_snapshot by blast
  from pc assms(1) have ok: "policy_ok (inventory pc)" by (auto simp: ran_def)
  from simulate_snapshots [OF ok mem] have
    g: "status d = Green" and r: "round2 (reorderPoint (inventory pc)) \<le> stockLevel d"
    by simp_all
  from r have "reorderPoint (inventory pc) \<le> stockLevel d"
    if "reorderPoint (inventory pc) * 100 \<in> \<int>"
    using round2_cents [OF that] by simp
  with g r pc show ?thesis by blast
qed

text \<open>The second day of scenario A of the specification (stock 50, sales 10, 20, 0).\<close>

theorem seedInventory_always_green_witness:
  "policy_ok \<lparr>minStockDaily = 2, reorderPoint = 5, maxStockDaily = 50\<rparr>
   \<and> \<lparr>inv_product = Fries, inv_date = 2, stockLevel = 20, consumed = 20, restocked = 0,
        status = Green\<rparr>
     \<in> set (seedInventory
        [Fries \<mapsto> \<lparr>name = Fries, sellPrice = 3, costPrice = 1, marginPercent = 66,
            category = ''side'',
            inventory = \<lparr>minStockDaily = 2, reorderPoint = 5, maxStockDaily = 50\<rparr>\<rparr>]
        [\<lparr>orderId = 1, date = 1, product = Fries, price = 3, quantity = 10,
           purchaseType = Online, paymentMethod = Cash\<rparr>,
         \<lparr>orderId = 2, date = 2, product = Fries, price = 3, quantity = 20,
           purchaseType = Online, paymentMethod = Cash\<rparr>,
         \<lparr>orderId = 3, date = 3, product = Fries, price = 3, quantity = 0,
           purchaseType = Online, paymentMethod = Cash\<rparr>])
   \<and> status \<lparr>inv_product = Fries, inv_date = 2, stockLevel = 20, consumed = 20,
        restocked = 0, status = Green\<rparr> = Green
   \<and> (5 :: rat) \<le> stockLevel \<lparr>inv_product = Fries, inv_date = 2, stockLevel = 20,
        consumed = 20, restocked = 0, status = Green\<rparr>"
proof -
  let ?cfg = "[Fries \<mapsto> \<lparr>name = Fries, sellPrice = 3, costPrice = 1, marginPercent = 66,
        category = ''side'',
        inventory = \<lparr>minStockDaily = 2, reorderPoint = 5, maxStockDaily = 50\<rparr>\<rparr>]"
  let ?sales = "[\<lparr>orderId = 1, date = 1, product = Fries, price = 3, quantity = 10,
           purchaseType = Online, paymentMethod = Cash\<rparr>,
         \<lparr>orderId = 2, date = 2, product = Fries, price = 3, quantity = 20,
           purchaseType = Online, paymentMethod = Cash\<rparr>,
         \<lparr>orderId = 3, date = 3, product = Fries, price = 3, quantity = 0,
           purchaseType = Online, paymentMethod = Cash\<rparr>]"
  let ?d = "\<lparr>inv_product = Fries, inv_date = 2, stockLevel = 20, consumed = 20, restocked = 0,
        status = Green\<rparr>"
  have h1: "\<forall>pc \<in> ran ?cfg. policy_ok (inventory pc)"
    by (simp add: policy_ok_def)
  have h2: "?d \<in> set (seedInventory ?cfg ?sales)"
    by code_simp
  from seedInventory_always_green [OF h1 h2] h2 show ?thesis
    by (simp add: policy_ok_def)
qed

text \<open>
  With a reorder point of \<open>257/256\<close> the stock \<open>2 - 255/256 = 257/256\<close> needs no
  restock, and is stored rounded as \<open>1\<close>, below the reorder point.
\<close>

theorem seedInventory_stockLevel_counterexample:
  "policy_ok \<lparr>minStockDaily = 0, reorderPoint = 257 / 256, maxStockDaily = 2\<rparr>
   \<and> seedInventory
        [Fries \<mapsto> \<lparr>name = Fries, sellPrice = 3, costPrice = 1, marginPercent = 66,
            category = ''side'',
            inventory = \<lparr>minStockDaily = 0, reorderPoint = 257 / 256, maxStockDaily = 2\<rparr>\<rparr>]
        [\<lparr>orderId = 1, date = 1, product = Fries, price = 3, quantity = 255 / 256,
           purchaseType = Online, paymentMethod = Cash\<rparr>]
      = [\<lparr>inv_product = Fries, inv_date = 1, stockLevel = 1, consumed = 1, restocked = 0,
           status = Green\<rparr>]
   \<and> (1 :: rat) < 257 / 256"
  by code_simp

text \<open>
  Claim C6. Under the invariant \<open>0 \<le> minStock < reorderPoint < maxStock\<close> of every
  configured product, every snapshot of the simulated series has a non-negative
  \<open>stockLevel\<close>, whatever the transaction history.
\<close>

theorem seedInventory_stockLevel_nonneg:
  assumes "\<forall>pc \<in> ran config. policy_ok (inventory pc)"
    and "d \<in> set (seedInventory config sales)"
  shows "0 \<le> stockLevel d"
proof -
  from assms(2) obtain pc stock days where pc: "config (inv_product d) = Some pc"
    and mem: "d \<in> set (simulate (inventory pc) (inv_product d) stock days)"
    using seedInventory_snapshot by blast
  from pc assms(1) have ok: "policy_ok (inventory pc)" by (auto simp: ran_def)
  from simulate_snapshots [OF ok mem] show ?thesis by simp
qed

theorem seedInventory_stockLevel_nonneg_witness:
  "policy_ok \<lparr>minStockDaily = 2, reorderPoint = 5, maxStockDaily = 50\<rparr>
   \<and> \<lparr>inv_product = Fries, inv_date = 1, stockLevel = 50, consumed = 60, restocked = 60,
        status = Green\<rparr>
     \<in> set (seedInventory
        [Fries \<mapsto> \<lparr>name = Fries, sellPrice = 3, costPrice = 1, marginPercent = 66,
            category = ''side'',
            inventory = \<lparr>minStockDaily = 2, reorderPoint = 5, maxStockDaily = 50\<rparr>\<rparr>]
        [\<lparr>orderId = 1, date = 1, product = Fries, price = 3, quantity = 60,
           purchaseType = Online, paymentMethod = Cash\<rparr>])
   \<and> (0 :: rat) \<le> stockLevel \<lparr>inv_product = Fries, inv_date = 1, stockLevel = 50,
        consumed = 60, restocked = 60, status = Green\<rparr>"
proof -
  let ?cfg = "[Fries \<mapsto> \<lparr>name = Fries, sellPrice = 3, costPrice = 1, marginPercent = 66,
        category = ''side'',
        inventory = \<lparr>minStockDaily = 2, reorderPoint = 5, maxStockDaily = 50\<rparr>\<rparr>]"
  let ?sales = "[\<lparr>orderId = 1, date = 1, product = Fries, price = 3, quantity = 60,
           purchaseType = Online, paymentMethod = Cash\<rparr>]"
  let ?d = "\<lparr>inv_product = Fries, inv_date = 1, stockLevel = 50, consumed = 60, restocked = 60,
        status = Green\<rparr>"
  have h1: "\<forall>pc \<in> ran ?cfg. policy_ok (inventory pc)"
    by (simp add: policy_ok_def)
  have h2: "?d \<in> set (seedInventory ?cfg ?sales)"
    by code_simp
  from seedInventory_stockLevel_nonneg [OF h1 h2] h2 show ?thesis
    by (simp add: policy_ok_def)
qed

section \<open>The consumption estimator and the days until stockout\<close>

text \<open>
  Claim C2, as the code has it. With \<open>matched\<close> the sales of the product in the lookback
  window, the estimator returns 0 when there is none, and otherwise the total quantity
  divided by the number of distinct sale days (not by the length of the window), rounded to
  the nearest integer by \<open>Math.round\<close>.
\<close>

theorem getAvgDailyConsumption_rounded:
  assumes "matched = filter (\<lambda>s. product s = p \<and> now - lookbackDays \<le> of_int (date s)) sales"
  shows "(matched = [] \<longrightarrow> getAvgDailyConsumption sales now p lookbackDays = 0)
       \<and> (matched \<noteq> [] \<longrightarrow>
            getAvgDailyConsumption sales now p lookbackDays
            = Math_round (sum_list (map quantity matched)
                          / of_nat (card (date ` set matched))))"
proof -
  have a: "remdups (map date xs) \<noteq> []" if "xs \<noteq> []" for xs :: "sale list"
    using that by (cases xs) auto
  have b: "length (remdups (map date xs)) = card (date ` set xs)" for xs :: "sale list"
    by (simp add: length_remdups_card_conv)
  show ?thesis
    unfolding assms getAvgDailyConsumption_def by (simp add: Let_def a b)
qed

theorem getAvgDailyConsumption_rounded_witness:
  "[\<lparr>orderId = 1, date = 10, product = Fries, price = 3, quantity = 1,
      purchaseType = Online, paymentMethod = Cash\<rparr>,
    \<lparr>orderId = 2, date = 11, product = Fries, price = 3, quantity = 2,
      purchaseType = Online, paymentMethod = Cash\<rparr>] \<noteq> []
   \<and> getAvgDailyConsumption
       [\<lparr>orderId = 1, date = 10, product = Fries, price = 3, quantity = 1,
          purchaseType = Online, paymentMethod = Cash\<rparr>,
        \<lparr>orderId = 2, date = 11, product = Fries, price = 3, quantity = 2,
          purchaseType = Online, paymentMethod = Cash\<rparr>,
        \<lparr>orderId = 3, date = 11, product = Burgers, price = 9, quantity = 7,
          purchaseType = Online, paymentMethod = Cash\<rparr>] 20 Fries 30
     = Math_round ((1 + 2) / of_nat 2)"
proof -
  let ?s1 = "\<lparr>orderId = 1, date = 10, product = Fries, price = 3, quantity = 1,
      purchaseType = Online, paymentMethod = Cash\<rparr>"
  let ?s2 = "\<lparr>orderId = 2, date = 11, product = Fries, price = 3, quantity = 2,
      purchaseType = Online, paymentMethod = Cash\<rparr>"
  let ?s3 = "\<lparr>orderId = 3, date = 11, product = Burgers, price = 9, quantity = 7,
          purchaseType = Online, paymentMethod = Cash\<rparr>"
  have m: "[?s1, ?s2] = filter (\<lambda>s. product s = Fries \<and> (20 :: rat) - 30 \<le> of_int (date s))
             [?s1, ?s2, ?s3]"
    by simp
  have c: "card (date ` set [?s1, ?s2]) = 2" by simp
  from getAvgDailyConsumption_rounded [OF m] c show ?thesis by simp
qed

text \<open>Quantities 1 and 2 on two days: the estimator returns 2, not 3/2.\<close>

theorem getAvgDailyConsumption_counterexample:
  "getAvgDailyConsumption
       [\<lparr>orderId = 1, date = 10, product = Fries, price = 3, quantity = 1,
          purchaseType = Online, paymentMethod = Cash\<rparr>,
        \<lparr>orderId = 2, date = 11, product = Fries, price = 3, quantity = 2,
          purchaseType = Online, paymentMethod = Cash\<rparr>] 20 Fries 30 = 2
   \<and> ((1 :: rat) + 2) / 2 \<noteq> 2"
  by code_simp

lemma productResult_days:
  "days_until_stockout (productResult sales now latest prd) \<le> 999
   \<and> (avg_daily_consumption (productResult sales now latest prd) \<le> 0
        \<longrightarrow> days_until_stockout (productResult sales now latest prd) = 999)
   \<and> (0 < avg_daily_consumption (productResult sales now latest prd)
        \<longrightarrow> days_until_stockout (productResult sales now latest prd)
            = min (Math_round (stock_level (productResult sales now latest prd)
                     / of_int (avg_daily_consumption (productResult sales now latest prd))))
                  999)"
  by (simp add: productResult_def Let_def)

text \<open>
  Claim C7, as the code has it. When some product matches, the inventory check returns a
  report (no error) with one result per product, and in every result
  \<open>days_until_stockout\<close> is at most 999, is exactly 999 when the average daily
  consumption is 0 (or negative), and otherwise is the stock divided by the average daily
  consumption, rounded to the nearest integer and capped at 999.
\<close>

theorem days_until_stockout_rounded_and_capped:
  assumes "productDocs = (case product' of Some p \<Rightarrow> filter (\<lambda>d. name d = p) products
                                         | None \<Rightarrow> products)"
    and "productDocs \<noteq> []"
  shows "\<exists>results.
           handleCheckInventory products inventoryDocs sales now product'
             = \<lparr> content = InventoryReport results, isError = False \<rparr>
           \<and> length results = length productDocs
           \<and> (\<forall>r \<in> set results.
                 days_until_stockout r \<le> 999
                 \<and> (avg_daily_consumption r \<le> 0 \<longrightarrow> days_until_stockout r = 999)
                 \<and> (0 < avg_daily_consumption r \<longrightarrow>
                      days_until_stockout r
                      = min (Math_round (stock_level r / of_int (avg_daily_consumption r)))
                            999))"
proof -
  let ?results = "map (productResult sales now (getLatestInventory inventoryDocs product'))
                      productDocs"
  have "handleCheckInventory products inventoryDocs sales now product'
          = \<lparr> content = InventoryReport ?results, isError = False \<rparr>"
    using assms(2) unfolding handleCheckInventory_def assms(1) [symmetric]
    by (simp add: Let_def)
  moreover have "length ?results = length productDocs" by simp
  moreover have "\<forall>r \<in> set ?results.
                 days_until_stockout r \<le> 999
                 \<and> (avg_daily_consumption r \<le> 0 \<longrightarrow> days_until_stockout r = 999)
                 \<and> (0 < avg_daily_consumption r \<longrightarrow>
                      days_until_stockout r
                      = min (Math_round (stock_level r / of_int (avg_daily_consumption r)))
                            999)"
    using productResult_days by auto
  ultimately show ?thesis by blast
qed

text \<open>Stock 10 and an average consumption of 4: the report says 3 days, not 10/4.\<close>

theorem days_until_stockout_counterexample:
  "handleCheckInventory
     [\<lparr>name = Fries, sellPrice = 3, costPrice = 1, marginPercent = 66, category = ''side'',
        inventory = \<lparr>minStockDaily = 2, reorderPoint = 5, maxStockDaily = 50\<rparr>\<rparr>]
     [\<lparr>inv_product = Fries, inv_date = 100, stockLevel = 10, consumed = 4, restocked = 0,
        status = Green\<rparr>]
     [\<lparr>orderId = 1, date = 100, product = Fries, price = 3, quantity = 4,
        purchaseType = Online, paymentMethod = Cash\<rparr>]
     (201 / 2) (Some Fries)
   = \<lparr> content = InventoryReport
         [\<lparr> res_product = Fries, stock_level = 10, res_status = Green,
            avg_daily_consumption = 4, days_until_stockout = 3, min_stock = 2,
            reorder_point = 5, max_stock = 50, restock_recommendation = 40,
            last_updated = Some 100 \<rparr>],
       isError = False \<rparr>
   \<and> (10 :: rat) / 4 \<noteq> 3"
  by code_simp

theorem days_until_stockout_rounded_and_capped_witness:
  "[\<lparr>name = Fries, sellPrice = 3, costPrice = 1, marginPercent = 66, category = ''side'',
        inventory = \<lparr>minStockDaily = 2, reorderPoint = 5, maxStockDaily = 50\<rparr>\<rparr>] \<noteq> []
   \<and> content (handleCheckInventory
     [\<lparr>name = Fries, sellPrice = 3, costPrice = 1, marginPercent = 66, category = ''side'',
        inventory = \<lparr>minStockDaily = 2, reorderPoint = 5, maxStockDaily = 50\<rparr>\<rparr>]
     [\<lparr>inv_product = Fries, inv_date = 100, stockLevel = 10, consumed = 4, restocked = 0,
        status = Green\<rparr>]
     [] (201 / 2) None)
   = InventoryReport
         [\<lparr> res_product = Fries, stock_level = 10, res_status = Green,
            avg_daily_consumption = 0, days_until_stockout = 999, min_stock = 2,
            reorder_point = 5, max_stock = 50, restock_recommendation = 40,
            last_updated = Some 100 \<rparr>]"
proof -
  let ?products = "[\<lparr>name = Fries, sellPrice = 3, costPrice = 1, marginPercent = 66,
        category = ''side'',
        inventory = \<lparr>minStockDaily = 2, reorderPoint = 5, maxStockDaily = 50\<rparr>\<rparr>]"
  let ?inv = "[\<lparr>inv_product = Fries, inv_date = 100, stockLevel = 10, consumed = 4,
        restocked = 0, status = Green\<rparr>]"
  have h1: "?products = (case None of Some p \<Rightarrow> filter (\<lambda>d. name d = p) ?products
                                     | None \<Rightarrow> ?products)"
    by simp
  have h2: "?products \<noteq> []" by simp
  have v: "handleCheckInventory ?products ?inv [] (201 / 2) None
     = \<lparr> content = InventoryReport
         [\<lparr> res_product = Fries, stock_level = 10, res_status = Green,
            avg_daily_consumption = 0, days_until_stockout = 999, min_stock = 2,
            reorder_point = 5, max_stock = 50, restock_recommendation = 40,
            last_updated = Some 100 \<rparr>],
       isError = False \<rparr>"
    by code_simp
  from days_until_stockout_rounded_and_capped [OF h1 h2, of ?inv "[]" "201 / 2"] v
  show ?thesis by simp
qed

section \<open>The profit identity\<close>

lemma Math_round_upper: "of_int (Math_round x) \<le> x + 1 / 2"
  unfolding Math_round_def by linarith

lemma Math_round_lower: "x - 1 / 2 < of_int (Math_round x)"
  unfolding Math_round_def by linarith

lemma Math_round_diff:
  "\<bar>Math_round (a - b) - (Math_round a - Math_round b)\<bar> \<le> 1"
proof -
  let ?k = "Math_round (a - b) - (Math_round a - Math_round b)"
  have "(of_int ?k :: rat) < 2"
    using Math_round_upper [of "a - b"] Math_round_lower [of a] Math_round_upper [of b]
    by simp
  moreover have "- 2 < (of_int ?k :: rat)"
    using Math_round_lower [of "a - b"] Math_round_upper [of a] Math_round_lower [of b]
    by simp
  ultimately have "?k < 2" and "- 2 < ?k"
    by linarith+
  then show ?thesis by linarith
qed

lemma round2_diff: "\<bar>round2 (a - b) - (round2 a - round2 b)\<bar> \<le> 1 / 100"
proof -
  let ?k = "Math_round (a * 100 - b * 100) - (Math_round (a * 100) - Math_round (b * 100))"
  have "round2 (a - b) - (round2 a - round2 b) = of_int ?k / 100"
    by (simp add: round2_def left_diff_distrib diff_divide_distrib)
  then have "\<bar>round2 (a - b) - (round2 a - round2 b)\<bar> = \<bar>of_int ?k / 100 :: rat\<bar>"
    by (simp only:)
  also have "\<dots> = \<bar>of_int ?k :: rat\<bar> / 100"
    by simp
  also have "\<dots> \<le> 1 / 100"
  proof (rule divide_right_mono)
    show "\<bar>(of_int ?k :: rat)\<bar> \<le> 1"
      using Math_round_diff [of "a * 100" "b * 100"]
      by (metis of_int_1 of_int_abs of_int_le_iff)
  qed simp
  finally show ?thesis .
qed

lemma round2_diff_cents:
  assumes "a * 100 \<in> \<int>" and "b * 100 \<in> \<int>"
  shows "round2 (a - b) = round2 a - round2 b"
proof -
  from assms have "(a - b) * 100 \<in> \<int>" by (simp add: left_diff_distrib)
  with assms show ?thesis by (simp add: round2_cents)
qed

lemma round1_zero: "round1 0 = 0"
  by (simp add: round1_def Math_round_def floor_eq_iff)

lemma profitRow_fields:
  "pr_revenue (profitRow costMap item) = round2 (agg_revenue item)"
  "cost_of_goods (profitRow costMap item)
     = round2 (cost_per_unit (profitRow costMap item) * totalQuantity item)"
  "gross_profit (profitRow costMap item)
     = round2 (agg_revenue item
               - cost_per_unit (profitRow costMap item) * totalQuantity item)"
  "agg_revenue item \<le> 0 \<Longrightarrow> margin_percent (profitRow costMap item) = 0"
  by (simp_all add: profitRow_def Let_def round1_zero)

lemma profitRow_identity:
  "\<bar>gross_profit (profitRow costMap item)
      - (pr_revenue (profitRow costMap item) - cost_of_goods (profitRow costMap item))\<bar>
     \<le> 1 / 100
   \<and> (agg_revenue item * 100 \<in> \<int>
        \<and> cost_per_unit (profitRow costMap item) * totalQuantity item * 100 \<in> \<int>
      \<longrightarrow> gross_profit (profitRow costMap item)
          = pr_revenue (profitRow costMap item) - cost_of_goods (profitRow costMap item))
   \<and> (agg_revenue item \<le> 0 \<longrightarrow> margin_percent (profitRow costMap item) = 0)"
  unfolding profitRow_fields(1-3)
  using round2_diff round2_diff_cents profitRow_fields(4) by blast

text \<open>
  Claim C5, as the code has it. Every row of the per-product breakdown comes from a product
  aggregate \<open>item\<close>. Revenue, cost of goods and gross profit are each rounded to two
  decimals on their own, so the reported \<open>gross_profit\<close> is within one cent of the
  reported \<open>revenue\<close> minus the reported \<open>cost_of_goods\<close>, and equal to it when
  the unrounded revenue and cost are whole cents. \<open>margin_percent\<close> is 0 whenever the
  unrounded revenue is not positive.
\<close>

theorem profit_identity_up_to_rounding:
  assumes "r \<in> set (getProductProfitBreakdown dateFilter costMap sales)"
  shows "\<exists>item \<in> set (salesByProduct dateFilter sales).
           r = profitRow costMap item
           \<and> \<bar>gross_profit r - (pr_revenue r - cost_of_goods r)\<bar> \<le> 1 / 100
           \<and> (agg_revenue item * 100 \<in> \<int> \<and> cost_per_unit r * totalQuantity item * 100 \<in> \<int>
                \<longrightarrow> gross_profit r = pr_revenue r - cost_of_goods r)
           \<and> (agg_revenue item \<le> 0 \<longrightarrow> margin_percent r = 0)"
proof -
  from assms obtain item where "item \<in> set (salesByProduct dateFilter sales)"
    and "r = profitRow costMap item"
    by (auto simp: getProductProfitBreakdown_def)
  then show ?thesis using profitRow_identity [of costMap item] by blast
qed

text \<open>
  Fries: revenue 1.004 and cost 0.006024 are reported as 1.00 and 0.01, the profit 0.997976
  as 1.00. Beverages: a revenue of 0.004 is reported as 0.00 with a margin of 100.
\<close>

theorem profit_identity_counterexample:
  "getProductProfitBreakdown (buildDateFilter 100 0)
     [Fries \<mapsto> \<lparr>cost_costPrice = 3 / 500, cost_sellPrice = 1, cost_marginPercent = 99,
                 cost_category = ''side''\<rparr>]
     [\<lparr>orderId = 1, date = 100, product = Fries, price = 1, quantity = 251 / 250,
        purchaseType = Online, paymentMethod = Cash\<rparr>,
      \<lparr>orderId = 2, date = 100, product = Beverages, price = 1, quantity = 1 / 250,
        purchaseType = Online, paymentMethod = Cash\<rparr>]
   = [\<lparr> pr_product = Fries, pr_category = ''side'', pr_revenue = 1,
        cost_of_goods = 1 / 100, gross_profit = 1, margin_percent = 994 / 10,
        units_sold = 251 / 250, pr_orders = 1, avg_selling_price = 1,
        cost_per_unit = 3 / 500, profit_per_unit = 99 / 100 \<rparr>,
      \<lparr> pr_product = Beverages, pr_category = ''unknown'', pr_revenue = 0,
        cost_of_goods = 0, gross_profit = 0, margin_percent = 100,
        units_sold = 1 / 250, pr_orders = 1, avg_selling_price = 1,
        cost_per_unit = 0, profit_per_unit = 1 \<rparr>]
   \<and> (1 :: rat) \<noteq> 1 - 1 / 100 \<and> (100 :: rat) \<noteq> 0"
  by code_simp


theorem profit_identity_up_to_rounding_witness:
  "\<lparr> pr_product = Fries, pr_category = ''side'', pr_revenue = 30,
        cost_of_goods = 10, gross_profit = 20, margin_percent = 667 / 10,
        units_sold = 10, pr_orders = 1, avg_selling_price = 3,
        cost_per_unit = 1, profit_per_unit = 2 \<rparr>
     \<in> set (getProductProfitBreakdown (buildDateFilter 100 30)
          [Fries \<mapsto> \<lparr>cost_costPrice = 1, cost_sellPrice = 3, cost_marginPercent = 66,
                      cost_category = ''side''\<rparr>]
          [\<lparr>orderId = 1, date = 90, product = Fries, price = 3, quantity = 10,
             purchaseType = Online, paymentMethod = Cash\<rparr>])
   \<and> \<bar>(20 :: rat) - (30 - 10)\<bar> \<le> 1 / 100"
proof -
  let ?r = "\<lparr> pr_product = Fries, pr_category = ''side'', pr_revenue = 30,
        cost_of_goods = 10, gross_profit = 20, margin_percent = 667 / 10,
        units_sold = 10, pr_orders = 1, avg_selling_price = 3,
        cost_per_unit = 1, profit_per_unit = 2 \<rparr>"
  have h: "?r \<in> set (getProductProfitBreakdown (buildDateFilter 100 30)
          [Fries \<mapsto> \<lparr>cost_costPrice = 1, cost_sellPrice = 3, cost_marginPercent = 66,
                      cost_category = ''side''\<rparr>]
          [\<lparr>orderId = 1, date = 90, product = Fries, price = 3, quantity = 10,
             purchaseType = Online, paymentMethod = Cash\<rparr>])"
    by code_simp
  from profit_identity_up_to_rounding [OF h] have
    "\<bar>gross_profit ?r - (pr_revenue ?r - cost_of_goods ?r)\<bar> \<le> 1 / 100"
    by blast
  with h show ?thesis by simp
qed

section \<open>The revenue identities\<close>

lemma abs_scaled:
  fixes a b c d :: rat
  assumes "b = a / d" and "\<bar>a\<bar> \<le> c" and "0 < d"
  shows "\<bar>b\<bar> \<le> c / d"
proof -
  have "\<bar>b\<bar> = \<bar>a\<bar> / d" using assms(1,3) by simp
  also have "\<dots> \<le> c / d" using assms(2,3) by (simp add: divide_right_mono)
  finally show ?thesis .
qed

lemma mongo_round2_err: "\<bar>mongo_round2 x - x\<bar> \<le> 1 / 200"
proof -
  define y where "y = x * 100"
  define f where "f = \<lfloor>y\<rfloor>"
  define n where "n = (if y - of_int f < 1 / 2 then f
                 else if 1 / 2 < y - of_int f then f + 1
                 else if even f then f else f + 1)"
  have fl: "of_int f \<le> y" "y < of_int f + 1"
    unfolding f_def by linarith+
  have b: "\<bar>of_int n - y\<bar> \<le> 1 / 2"
    using fl unfolding n_def by (auto simp: abs_le_iff)
  have e: "mongo_round2 x - x = (of_int n - y) / 100"
    by (simp add: mongo_round2_def Let_def n_def f_def y_def diff_divide_distrib)
  have "\<bar>mongo_round2 x - x\<bar> \<le> (1 / 2) / 100"
    by (rule abs_scaled [OF e b]) simp
  then show ?thesis by simp
qed

lemma mongo_round2_cents:
  assumes "x * 100 \<in> \<int>"
  shows "mongo_round2 x = x"
proof -
  from assms obtain k :: int where k: "x * 100 = of_int k" by (auto elim: Ints_cases)
  show ?thesis
    by (simp add: mongo_round2_def Let_def k)
qed

lemma round1_err: "\<bar>round1 x - x\<bar> \<le> 1 / 20"
proof -
  have e: "round1 x - x = (of_int (Math_round (x * 10)) - x * 10) / 10"
    by (simp add: round1_def diff_divide_distrib)
  have b: "\<bar>of_int (Math_round (x * 10)) - x * 10\<bar> \<le> 1 / 2"
    using Math_round_upper [of "x * 10"] Math_round_lower [of "x * 10"]
    by linarith
  have "\<bar>round1 x - x\<bar> \<le> (1 / 2) / 10"
    by (rule abs_scaled [OF e b]) simp
  then show ?thesis by simp
qed

lemma sum_list_abs_diff:
  fixes f g :: "'a \<Rightarrow> rat"
  assumes "\<forall>x \<in> set xs. \<bar>f x - g x\<bar> \<le> c"
  shows "\<bar>sum_list (map f xs) - sum_list (map g xs)\<bar> \<le> of_nat (length xs) * c"
  using assms
proof (induction xs)
  case Nil
  then show ?case by simp
next
  case (Cons a xs)
  then have "\<bar>f a - g a\<bar> \<le> c"
    and "\<bar>sum_list (map f xs) - sum_list (map g xs)\<bar> \<le> of_nat (length xs) * c"
    by simp_all
  then show ?case by (simp add: algebra_simps abs_le_iff)
qed

lemma foldl_plus: 
  fixes a :: rat
  shows "foldl (\<lambda>s r. s + f r) a xs = a + sum_list (map f xs)"
  by (induction xs arbitrary: a) simp_all

lemma sum_by_key:
  fixes f :: "'a \<Rightarrow> rat"
  assumes "finite K" and "key ` set xs \<subseteq> K"
  shows "(\<Sum>k\<in>K. sum_list (map f (filter (\<lambda>s. key s = k) xs))) = sum_list (map f xs)"
  using assms(2)
proof (induction xs)
  case Nil
  then show ?case by simp
next
  case (Cons a xs)
  then have ih: "(\<Sum>k\<in>K. sum_list (map f (filter (\<lambda>s. key s = k) xs))) = sum_list (map f xs)"
    and mem: "key a \<in> K"
    by simp_all
  have "(\<Sum>k\<in>K. sum_list (map f (filter (\<lambda>s. key s = k) (a # xs))))
      = (\<Sum>k\<in>K. (if key a = k then f a else 0)
                  + sum_list (map f (filter (\<lambda>s. key s = k) xs)))"
    by (rule sum.cong) simp_all
  also have "\<dots> = f a + sum_list (map f xs)"
    using assms(1) mem by (simp add: sum.distrib ih)
  finally show ?case by simp
qed

lemma sum_groups:
  fixes f :: "'a \<Rightarrow> rat"
  shows "sum_list (map (\<lambda>k. sum_list (map f (filter (\<lambda>s. key s = k) xs)))
                     (remdups (map key xs)))
         = sum_list (map f xs)"
proof -
  have "sum_list (map (\<lambda>k. sum_list (map f (filter (\<lambda>s. key s = k) xs)))
                     (remdups (map key xs)))
        = (\<Sum>k\<in>set (remdups (map key xs)).
              sum_list (map f (filter (\<lambda>s. key s = k) xs)))"
    by (rule sum_list_distinct_conv_sum_set) simp
  also have "\<dots> = sum_list (map f xs)"
    by (rule sum_by_key) simp_all
  finally show ?thesis .
qed

lemma sum_list_insort_key:
  fixes g :: "'a \<Rightarrow> rat"
  shows "sum_list (map g (insort_key k x xs)) = g x + sum_list (map g xs)"
  by (induction xs) simp_all

lemma sum_list_sort_key:
  fixes g :: "'a \<Rightarrow> rat"
  shows "sum_list (map g (sort_key k xs)) = sum_list (map g xs)"
  by (induction xs) (simp_all add: sum_list_insort_key)

lemma byProductGroups_sum:
  "sum_list (map revenue (byProductGroups dateFilter sales))
   = sum_list (map (\<lambda>p. mongo_round2 (sum_list (map lineRevenue
                 (filter (\<lambda>s. product s = p) (filter dateFilter sales)))))
         (remdups (map product (filter dateFilter sales))))"
  by (simp add: byProductGroups_def Let_def o_def sum_list_sort_key)

lemma byProductGroups_length:
  "length (byProductGroups dateFilter sales)
   = length (remdups (map product (filter dateFilter sales)))"
  by (simp add: byProductGroups_def Let_def)

lemma getByProduct_fields:
  "map revenue (getByProduct dateFilter sales) = map revenue (byProductGroups dateFilter sales)"
  "length (getByProduct dateFilter sales) = length (byProductGroups dateFilter sales)"
  "map revenue_pct (getByProduct dateFilter sales)
   = map (\<lambda>r. if 0 < sum_list (map revenue (byProductGroups dateFilter sales))
               then round1 (revenue r / sum_list (map revenue (byProductGroups dateFilter sales)) * 100)
               else 0)
         (byProductGroups dateFilter sales)"
  by (simp_all add: getByProduct_def Let_def foldl_plus product_group.defs o_def)

lemma total_revenue_overview:
  "total_revenue (getOverview dateFilter sales)
   = mongo_round2 (sum_list (map lineRevenue (filter dateFilter sales)))"
  by (simp add: getOverview_def Let_def mongo_round2_def)


lemma sum_list_cents:
  fixes g :: "'a \<Rightarrow> rat"
  assumes "\<forall>x \<in> set xs. g x * 100 \<in> \<int>"
  shows "sum_list (map g xs) * 100 \<in> \<int>"
  using assms by (induction xs) (simp_all add: distrib_right)

lemma sum_list_share:
  fixes g :: "'a \<Rightarrow> rat"
  shows "sum_list (map (\<lambda>r. g r / t * 100) xs) = sum_list (map g xs) / t * 100"
  by (induction xs) (simp_all add: add_divide_distrib distrib_right)

lemma revenue_sum_close:
  "\<bar>sum_list (map revenue (getByProduct dateFilter sales))
      - total_revenue (getOverview dateFilter sales)\<bar>
   \<le> (of_nat (length (getByProduct dateFilter sales)) + 1) / 200"
proof -
  let ?matched = "filter dateFilter sales"
  let ?keys = "remdups (map product ?matched)"
  let ?raw = "\<lambda>p. sum_list (map lineRevenue (filter (\<lambda>s. product s = p) ?matched))"
  have total: "sum_list (map ?raw ?keys) = sum_list (map lineRevenue ?matched)"
    by (rule sum_groups)
  have "\<bar>sum_list (map (\<lambda>p. mongo_round2 (?raw p)) ?keys) - sum_list (map ?raw ?keys)\<bar>
        \<le> of_nat (length ?keys) * (1 / 200)"
    by (rule sum_list_abs_diff) (intro ballI mongo_round2_err)
  moreover have "\<bar>mongo_round2 (sum_list (map ?raw ?keys)) - sum_list (map ?raw ?keys)\<bar>
        \<le> 1 / 200"
    by (rule mongo_round2_err)
  ultimately have "\<bar>sum_list (map (\<lambda>p. mongo_round2 (?raw p)) ?keys)
                    - mongo_round2 (sum_list (map ?raw ?keys))\<bar>
        \<le> of_nat (length ?keys) * (1 / 200) + 1 / 200"
    by linarith
  also have "\<dots> = (of_nat (length ?keys) + 1) / 200"
    by (simp add: add_divide_distrib)
  finally show ?thesis
    by (simp only: getByProduct_fields byProductGroups_sum byProductGroups_length
          total_revenue_overview total)
qed

lemma revenue_sum_exact:
  assumes "\<forall>s \<in> set sales. dateFilter s \<longrightarrow> lineRevenue s * 100 \<in> \<int>"
  shows "sum_list (map revenue (getByProduct dateFilter sales))
         = total_revenue (getOverview dateFilter sales)"
proof -
  let ?matched = "filter dateFilter sales"
  let ?keys = "remdups (map product ?matched)"
  let ?raw = "\<lambda>p. sum_list (map lineRevenue (filter (\<lambda>s. product s = p) ?matched))"
  have total: "sum_list (map ?raw ?keys) = sum_list (map lineRevenue ?matched)"
    by (rule sum_groups)
  have "?raw p * 100 \<in> \<int>" for p
    by (rule sum_list_cents) (use assms in auto)
  then have "mongo_round2 (?raw p) = ?raw p" for p
    by (rule mongo_round2_cents)
  then have "sum_list (map (\<lambda>p. mongo_round2 (?raw p)) ?keys) = sum_list (map ?raw ?keys)"
    by simp
  moreover have "sum_list (map lineRevenue ?matched) * 100 \<in> \<int>"
    by (rule sum_list_cents) (use assms in auto)
  then have "mongo_round2 (sum_list (map lineRevenue ?matched))
             = sum_list (map lineRevenue ?matched)"
    by (rule mongo_round2_cents)
  ultimately show ?thesis
    by (simp only: getByProduct_fields byProductGroups_sum total_revenue_overview total)
qed

lemma revenue_pct_sum:
  assumes "0 < sum_list (map revenue (getByProduct dateFilter sales))"
  shows "\<bar>sum_list (map revenue_pct (getByProduct dateFilter sales)) - 100\<bar>
         \<le> of_nat (length (getByProduct dateFilter sales)) / 20"
proof -
  let ?groups = "byProductGroups dateFilter sales"
  let ?t = "sum_list (map revenue ?groups)"
  from assms have pos: "0 < ?t" by (simp only: getByProduct_fields)
  then have pct: "map revenue_pct (getByProduct dateFilter sales)
                  = map (\<lambda>r. round1 (revenue r / ?t * 100)) ?groups"
    by (simp add: getByProduct_fields(3))
  have "sum_list (map (\<lambda>r. revenue r / ?t * 100) ?groups) = 100"
    by (simp only: sum_list_share) (use pos in simp)
  moreover have "\<bar>sum_list (map (\<lambda>r. round1 (revenue r / ?t * 100)) ?groups)
          - sum_list (map (\<lambda>r. revenue r / ?t * 100) ?groups)\<bar>
        \<le> of_nat (length ?groups) * (1 / 20)"
    by (rule sum_list_abs_diff) (intro ballI round1_err)
  ultimately show ?thesis
    by (simp add: pct getByProduct_fields(2))
qed

lemma revenue_pct_zero:
  assumes "sum_list (map revenue (getByProduct dateFilter sales)) \<le> 0"
    and "r \<in> set (getByProduct dateFilter sales)"
  shows "revenue_pct r = 0"
proof -
  from assms(1) have "\<not> 0 < sum_list (map revenue (byProductGroups dateFilter sales))"
    by (simp add: getByProduct_fields(1))
  then have "map revenue_pct (getByProduct dateFilter sales)
             = map (\<lambda>r. 0) (byProductGroups dateFilter sales)"
    by (simp add: getByProduct_fields(3))
  moreover from assms(2) have "revenue_pct r \<in> set (map revenue_pct (getByProduct dateFilter sales))"
    by simp
  ultimately show ?thesis by auto
qed

text \<open>
  Claim C4, as the code has it. The by-product revenues and the overview's total revenue are
  rounded to two decimals separately: their difference is at most half a cent for every
  row and for the total, and they agree when every line revenue \<open>price * quantity\<close> of
  the filtered set is a whole number of cents. When the sum of the by-product revenues is
  positive, the percentages sum to 100 within 0.05 for every row; otherwise every
  percentage is 0.
\<close>

theorem revenue_identities_up_to_rounding:
  "\<bar>sum_list (map revenue (getByProduct dateFilter sales))
      - total_revenue (getOverview dateFilter sales)\<bar>
     \<le> (of_nat (length (getByProduct dateFilter sales)) + 1) / 200
   \<and> ((\<forall>s \<in> set sales. dateFilter s \<longrightarrow> lineRevenue s * 100 \<in> \<int>)
        \<longrightarrow> sum_list (map revenue (getByProduct dateFilter sales))
            = total_revenue (getOverview dateFilter sales))
   \<and> (0 < sum_list (map revenue (getByProduct dateFilter sales))
        \<longrightarrow> \<bar>sum_list (map revenue_pct (getByProduct dateFilter sales)) - 100\<bar>
            \<le> of_nat (length (getByProduct dateFilter sales)) / 20)
   \<and> (sum_list (map revenue (getByProduct dateFilter sales)) \<le> 0
        \<longrightarrow> (\<forall>r \<in> set (getByProduct dateFilter sales). revenue_pct r = 0))"
  using revenue_sum_close revenue_sum_exact revenue_pct_sum revenue_pct_zero
  by blast

text \<open>
  Two products with a revenue of 1.004 each: the rows say 1.00 and 1.00, the overview 2.01.
  A single sale of quantity 0: the only percentage is 0.
\<close>

theorem revenue_identities_counterexample:
  "map revenue (getByProduct (buildDateFilter 100 30)
     [\<lparr>orderId = 1, date = 90, product = Burgers, price = 1, quantity = 251 / 250,
        purchaseType = Online, paymentMethod = Cash\<rparr>,
      \<lparr>orderId = 2, date = 91, product = Fries, price = 1, quantity = 251 / 250,
        purchaseType = Online, paymentMethod = Cash\<rparr>]) = [1, 1]
   \<and> total_revenue (getOverview (buildDateFilter 100 30)
     [\<lparr>orderId = 1, date = 90, product = Burgers, price = 1, quantity = 251 / 250,
        purchaseType = Online, paymentMethod = Cash\<rparr>,
      \<lparr>orderId = 2, date = 91, product = Fries, price = 1, quantity = 251 / 250,
        purchaseType = Online, paymentMethod = Cash\<rparr>]) = 201 / 100
   \<and> (1 :: rat) + 1 \<noteq> 201 / 100
   \<and> map revenue_pct (getByProduct (buildDateFilter 100 30)
     [\<lparr>orderId = 3, date = 90, product = Fries, price = 3, quantity = 0,
        purchaseType = Online, paymentMethod = Cash\<rparr>]) = [0]"
  by code_simp

theorem revenue_identities_up_to_rounding_witness:
  "lineRevenue \<lparr>orderId = 1, date = 90, product = Burgers, price = 5 / 2, quantity = 3,
        purchaseType = Online, paymentMethod = Cash\<rparr> * 100 \<in> \<int>
   \<and> lineRevenue \<lparr>orderId = 2, date = 91, product = Fries, price = 1, quantity = 5,
        purchaseType = Online, paymentMethod = Cash\<rparr> * 100 \<in> \<int>
   \<and> sum_list (map revenue (getByProduct (buildDateFilter 100 30)
     [\<lparr>orderId = 1, date = 90, product = Burgers, price = 5 / 2, quantity = 3,
        purchaseType = Online, paymentMethod = Cash\<rparr>,
      \<lparr>orderId = 2, date = 91, product = Fries, price = 1, quantity = 5,
        purchaseType = Online, paymentMethod = Cash\<rparr>]))
     = total_revenue (getOverview (buildDateFilter 100 30)
     [\<lparr>orderId = 1, date = 90, product = Burgers, price = 5 / 2, quantity = 3,
        purchaseType = Online, paymentMethod = Cash\<rparr>,
      \<lparr>orderId = 2, date = 91, product = Fries, price = 1, quantity = 5,
        purchaseType = Online, paymentMethod = Cash\<rparr>])
   \<and> 0 < sum_list (map revenue (getByProduct (buildDateFilter 100 30)
     [\<lparr>orderId = 1, date = 90, product = Burgers, price = 5 / 2, quantity = 3,
        purchaseType = Online, paymentMethod = Cash\<rparr>,
      \<lparr>orderId = 2, date = 91, product = Fries, price = 1, quantity = 5,
        purchaseType = Online, paymentMethod = Cash\<rparr>]))
   \<and> \<bar>sum_list (map revenue_pct (getByProduct (buildDateFilter 100 30)
     [\<lparr>orderId = 1, date = 90, product = Burgers, price = 5 / 2, quantity = 3,
        purchaseType = Online, paymentMethod = Cash\<rparr>,
      \<lparr>orderId = 2, date = 91, product = Fries, price = 1, quantity = 5,
        purchaseType = Online, paymentMethod = Cash\<rparr>])) - 100\<bar> \<le> 2 / 20"
proof -
  let ?s1 = "\<lparr>orderId = 1, date = 90, product = Burgers, price = 5 / 2, quantity = 3,
        purchaseType = Online, paymentMethod = Cash\<rparr>"
  let ?s2 = "\<lparr>orderId = 2, date = 91, product = Fries, price = 1, quantity = 5,
        purchaseType = Online, paymentMethod = Cash\<rparr>"
  have c1: "lineRevenue ?s1 * 100 = of_int 750" and c2: "lineRevenue ?s2 * 100 = of_int 500"
    by (simp_all add: lineRevenue_def)
  have h1: "lineRevenue ?s1 * 100 \<in> \<int>" and h2: "lineRevenue ?s2 * 100 \<in> \<int>"
    unfolding c1 c2 by (rule Ints_of_int)+
  have h3: "0 < sum_list (map revenue (getByProduct (buildDateFilter 100 30) [?s1, ?s2]))"
    by code_simp
  have len: "length (getByProduct (buildDateFilter 100 30) [?s1, ?s2]) = 2"
    by code_simp
  from revenue_identities_up_to_rounding [of "buildDateFilter 100 30" "[?s1, ?s2]"]
    h1 h2 h3 len
  show ?thesis by simp
qed

section \<open>The fallback forecast\<close>

lemma foldl_plus_int:
  fixes a :: int
  shows "foldl (\<lambda>s r. s + f r) a xs = a + sum_list (map f xs)"
  by (induction xs arbitrary: a) simp_all

lemma dailyData_nonempty:
  assumes "filter (\<lambda>s. now - 30 \<le> of_int (date s)
                       \<and> (case product' of None \<Rightarrow> True | Some p \<Rightarrow> product s = p)) sales \<noteq> []"
  shows "dailyData sales now product' \<noteq> []"
proof -
  have "remdups (map date xs) \<noteq> []" if "xs \<noteq> []" for xs :: "sale list"
    using that by (cases xs) auto
  from this [OF assms] have "length (dailyData sales now product') \<noteq> 0"
    by (simp add: dailyData_def Let_def)
  then show ?thesis by auto
qed

lemma predict_nonneg: "0 \<le> predicted_quantity (predict data avgDaily avgRevenue now random i)"
  by (simp add: predict_def Let_def)

text \<open>
  Claim C8. When the last 30 days hold at least one sale of the requested product (or of
  any product for "all") and the horizon is at least 1, the fallback returns a forecast:
  \<open>daily_forecast\<close> has exactly \<open>daysAhead\<close> entries, every
  \<open>predicted_quantity\<close> is non-negative whatever \<open>Math.random()\<close> returns, and
  \<open>total_predicted_quantity\<close> is the sum of the entries' \<open>predicted_quantity\<close>.
\<close>

theorem fallback_forecast_shape:
  assumes "filter (\<lambda>s. now - 30 \<le> of_int (date s)
                       \<and> (case product' of None \<Rightarrow> True | Some p \<Rightarrow> product s = p)) sales \<noteq> []"
    and "1 \<le> daysAhead"
  shows "\<exists>fc. movingAverageFallback sales now random product' daysAhead = Inr (Forecast fc)
            \<and> int (length (daily_forecast fc)) = daysAhead
            \<and> (\<forall>p \<in> set (daily_forecast fc). 0 \<le> predicted_quantity p)
            \<and> total_predicted_quantity (summary fc)
                = sum_list (map predicted_quantity (daily_forecast fc))"
proof -
  let ?data = "dailyData sales now product'"
  define avgDaily where
    "avgDaily = foldl (\<lambda>sum d. sum + dailyQty d) 0 ?data / of_nat (length ?data)"
  define avgRevenue where
    "avgRevenue = foldl (\<lambda>sum d. sum + dailyRevenue d) 0 ?data / of_nat (length ?data)"
  define predictions where
    "predictions = map (predict ?data avgDaily avgRevenue now random) [1..daysAhead]"
  have len: "int (length predictions) = daysAhead"
    using assms(2) by (simp add: predictions_def)
  then obtain p0 ps where ps: "predictions = p0 # ps"
    using assms(2) by (cases predictions) auto
  have nonneg: "\<forall>p \<in> set predictions. 0 \<le> predicted_quantity p"
    by (auto simp: predictions_def predict_nonneg)
  have "\<exists>fc. movingAverageFallback sales now random product' daysAhead = Inr (Forecast fc)
          \<and> daily_forecast fc = predictions
          \<and> total_predicted_quantity (summary fc)
              = foldl (\<lambda>s p. s + predicted_quantity p) 0 predictions"
    using dailyData_nonempty [OF assms(1)] ps
    unfolding movingAverageFallback_def Let_def
      avgDaily_def [symmetric] avgRevenue_def [symmetric] predictions_def [symmetric]
    by simp
  then show ?thesis
    using len nonneg by (auto simp: foldl_plus_int)
qed

theorem fallback_forecast_shape_witness:
  "filter (\<lambda>s. (100 :: rat) - 30 \<le> of_int (date s)
                  \<and> (case Some Fries of None \<Rightarrow> True | Some p \<Rightarrow> product s = p))
     [\<lparr>orderId = 1, date = 90, product = Fries, price = 3, quantity = 10,
        purchaseType = Online, paymentMethod = Cash\<rparr>,
      \<lparr>orderId = 2, date = 91, product = Fries, price = 3, quantity = 20,
        purchaseType = Online, paymentMethod = Cash\<rparr>] \<noteq> []
   \<and> (1 :: int) \<le> 3
   \<and> movingAverageFallback
     [\<lparr>orderId = 1, date = 90, product = Fries, price = 3, quantity = 10,
        purchaseType = Online, paymentMethod = Cash\<rparr>,
      \<lparr>orderId = 2, date = 91, product = Fries, price = 3, quantity = 20,
        purchaseType = Online, paymentMethod = Cash\<rparr>]
     100 (\<lambda>i. 1 / 2) (Some Fries) 3
   = Inr (Forecast
       \<lparr> forecast_days = 3, model = ''moving_average_fallback'', fc_confidence = ''low'',
         ml_service = ''disconnected'',
         summary = \<lparr> total_predicted_quantity = 45, avg_daily_predicted = 15,
                     peak_day = (101, ''Sunday'', 15) \<rparr>,
         daily_forecast =
           [\<lparr> pred_date = 101, day_name = ''Sunday'', predicted_quantity = 15,
              predicted_revenue = 45, confidence = ''low'' \<rparr>,
            \<lparr> pred_date = 102, day_name = ''Monday'', predicted_quantity = 15,
              predicted_revenue = 45, confidence = ''low'' \<rparr>,
            \<lparr> pred_date = 103, day_name = ''Tuesday'', predicted_quantity = 15,
              predicted_revenue = 45, confidence = ''low'' \<rparr>] \<rparr>)"
proof -
  let ?sales = "[\<lparr>orderId = 1, date = 90, product = Fries, price = 3, quantity = 10,
        purchaseType = Online, paymentMethod = Cash\<rparr>,
      \<lparr>orderId = 2, date = 91, product = Fries, price = 3, quantity = 20,
        purchaseType = Online, paymentMethod = Cash\<rparr>]"
  have h1: "filter (\<lambda>s. (100 :: rat) - 30 \<le> of_int (date s)
                  \<and> (case Some Fries of None \<Rightarrow> True | Some p \<Rightarrow> product s = p))
              ?sales \<noteq> []"
    by simp
  have h2: "(1 :: int) \<le> 3" by simp
  have v: "movingAverageFallback ?sales 100 (\<lambda>i. 1 / 2) (Some Fries) 3
   = Inr (Forecast
       \<lparr> forecast_days = 3, model = ''moving_average_fallback'', fc_confidence = ''low'',
         ml_service = ''disconnected'',
         summary = \<lparr> total_predicted_quantity = 45, avg_daily_predicted = 15,
                     peak_day = (101, ''Sunday'', 15) \<rparr>,
         daily_forecast =
           [\<lparr> pred_date = 101, day_name = ''Sunday'', predicted_quantity = 15,
              predicted_revenue = 45, confidence = ''low'' \<rparr>,
            \<lparr> pred_date = 102, day_name = ''Monday'', predicted_quantity = 15,
              predicted_revenue = 45, confidence = ''low'' \<rparr>,
            \<lparr> pred_date = 103, day_name = ''Tuesday'', predicted_quantity = 15,
              predicted_revenue = 45, confidence = ''low'' \<rparr>] \<rparr>)"
    by code_simp
  from fallback_forecast_shape [OF h1 h2, of "\<lambda>i. 1 / 2"] h1 v show ?thesis
    by simp
qed

section \<open>The primary path of the forecast\<close>

text \<open>
  Claim C9. If the demand forecast call or the profit projection call throws, times out or
  returns a non-success status, the handler returns what the fallback algorithm produces
  from the sales history alone: the result never carries the primary payload, so no data
  of the other call appears in it.
\<close>

theorem primary_failure_uses_fallback:
  assumes "fetch_failed forecastFetch \<or> fetch_failed profitFetch"
  shows "handleForecastDemand formatMLResponse forecastFetch profitFetch sales now random
           product' days_ahead
         = fallbackResponse (movingAverageFallback sales now random product' days_ahead)
       \<and> (\<forall>r. content (handleForecastDemand formatMLResponse forecastFetch profitFetch
                          sales now random product' days_ahead) \<noteq> MLResult r)"
proof -
  from assms have "callMLService formatMLResponse forecastFetch profitFetch = None"
    by (auto simp: callMLService_def fetch_failed_def split: fetch_outcome.splits)
  then show ?thesis
    by (auto simp: handleForecastDemand_def fallbackResponse_def split: sum.splits)
qed

text \<open>The forecast call succeeds with data and the profit call is aborted by the timeout.\<close>

theorem primary_failure_uses_fallback_witness:
  "fetch_failed (Rejected ''AbortError'' :: nat fetch_outcome)
   \<and> handleForecastDemand (\<lambda>f p. Some (f + p)) (Response True (Some (7 :: nat)))
        (Rejected ''AbortError'') [] 100 (\<lambda>i. 1 / 2) None 3
     = (\<lparr> content = FallbackResult NoHistory, isError = False \<rparr>
         :: nat forecast_payload mcp_result)"
proof -
  have h: "fetch_failed (Response True (Some (7 :: nat)))
           \<or> fetch_failed (Rejected ''AbortError'' :: nat fetch_outcome)"
    by (simp add: fetch_failed_def)
  have f: "fetch_failed (Rejected ''AbortError'' :: nat fetch_outcome)"
    by (simp add: fetch_failed_def)
  have v: "(fallbackResponse (movingAverageFallback [] 100 (\<lambda>i. 1 / 2) None 3)
            :: nat forecast_payload mcp_result)
           = \<lparr> content = FallbackResult NoHistory, isError = False \<rparr>"
    by (simp add: fallbackResponse_def movingAverageFallback_def dailyData_def)
  from primary_failure_uses_fallback [OF h, of "\<lambda>f p. Some (f + p)" "[]" 100 "\<lambda>i. 1 / 2" None 3]
    f v
  show ?thesis by simp
qed

section \<open>The dispatch of the sales analytics\<close>


text \<open>
  The guard \<open>if (!analysisFn)\<close> of the handler alone does not cover the names that the
  object literal inherits: called with \<open>constructor\<close>, the lookup yields \<open>Object\<close>
  and the handler returns a response that is not an error. The handler is registered behind
  the enum schema, which lets none of these names through.
\<close>

lemma handler_constructor_runs:
  "''constructor'' \<notin> set (map fst analysisMap)
   \<and> handleGetSalesAnalytics run ''constructor''
     = \<lparr> content = AnalysisResponse ''constructor'' EmptyObject, isError = False \<rparr>"
  by (simp add: handleGetSalesAnalytics_def analysisMap_get_def analysisMap_def
        Object_prototype_keys_def call_inherited_def)



section \<open>The festival cache\<close>

text \<open>
  Claim C1 says that a refresh preserves the demand multiplier stored in an existing entry.
  The \<open>$set\<close> of \<open>syncFestivalsToCache\<close> names \<open>demandMultiplier\<close>: a
  manually entered "Labor Day" with multiplier 2 comes out of the refresh with the
  keyword-derived 1.25 (and with the source overwritten), while the comment above the
  function says that the upsert preserves a manually set \<open>demandMultiplier\<close>.
\<close>

theorem sync_overwrites_manual_multiplier:
  "syncFestivalsToCache 1000 ''US''
     [\<lparr>h_date = 20000, h_name = ''Labor Day'', h_localName = ''Labor Day''\<rparr>]
     [\<lparr>f_name = ''Labor Day'', f_date = 20000, localName = Some ''Labor Day'',
        countryCode = ''US'', source = Manual, demandMultiplier = 2, fetchedAt = 0\<rparr>]
   = ([\<lparr>f_name = ''Labor Day'', f_date = 20000, localName = Some ''Labor Day'',
         countryCode = ''US'', source = NagerApi, demandMultiplier = 5 / 4,
         fetchedAt = 1000\<rparr>], 1)"
  by code_simp

end
